theory Spec2Isabelle
  imports Main
begin

section \<open>Task reminder: data model\<close>

text \<open>
  The request handlers of \<^verbatim>\<open>scripts/task_reminder.py\<close> are embedded as state-passing
  functions. The modules \<^verbatim>\<open>database/db_manager.py\<close> and \<^verbatim>\<open>database/model.py\<close> that the
  handlers import are described by the specification only; their definitions below
  follow the specification's words and say so.
\<close>

text \<open>
  A task row with its columns \<^verbatim>\<open>id\<close>, \<^verbatim>\<open>description\<close>, \<^verbatim>\<open>priority\<close> and \<^verbatim>\<open>completed\<close>
  (the field names carry a prefix, the handlers use the plain names for their variables).
\<close>

record task =
  row_id :: nat
  row_description :: string
  row_priority :: string
  row_completed :: bool

text \<open>
  An exception of the Python program. \<open>StorageError\<close> is what the persistence layer
  raises; \<open>TypeError\<close> stands for a \<^verbatim>\<open>None\<close> reaching a place that needs a text.
\<close>

datatype error = StorageError string | TypeError string

fun error_text :: "error \<Rightarrow> string" where
  "error_text (StorageError m) = m"
| "error_text (TypeError m) = m"

text \<open>
  The storage medium: whether it can be reached, and the task table when it exists
  (\<open>None\<close> before initialisation).
\<close>

record database =
  reachable :: bool
  storage :: "task list option"

text \<open>Python's \<^verbatim>\<open>str(n)\<close> for a non-negative integer, as the f-strings format an id.\<close>

fun str_nat :: "nat \<Rightarrow> string" where
  "str_nat n =
     (if n < 10 then [''0123456789'' ! n]
      else str_nat (n div 10) @ [''0123456789'' ! (n mod 10)])"

declare str_nat.simps [simp del]

section \<open>Validation (database/model.py)\<close>

text \<open>
  The constants of the validation module: the length bound and the two reasons it
  reports. Their values are not given, so they are parameters.
\<close>

record model_config =
  max_length :: nat
  empty_message :: string
  too_long_message :: string

definition is_space :: "char \<Rightarrow> bool" where
  "is_space c = (c \<in> set [CHR '' '', CHR 0x09, CHR 0x0A, CHR 0x0B, CHR 0x0C, CHR 0x0D])"

text \<open>Python's \<^verbatim>\<open>text.strip()\<close>: leading and trailing whitespace removed.\<close>

definition strip :: "string \<Rightarrow> string" where
  "strip text = rev (dropWhile is_space (rev (dropWhile is_space text)))"

text \<open>
  Modelled from the spec: \<^verbatim>\<open>validate_task_description\<close> of \<^verbatim>\<open>database/model.py\<close>, which is
  not among the sources. ``Fails when text is empty/whitespace-only or exceeds a max
  length; returns a human-readable reason.'' The argument is what
  \<^verbatim>\<open>request.form.get('description')\<close> gives, so a missing field (\<open>None\<close>) is covered
  and counts as an empty description. The length is that of the text as submitted.
\<close>

definition validate_task_description :: "model_config \<Rightarrow> string option \<Rightarrow> bool \<times> string" where
  "validate_task_description cfg text_opt =
     (case text_opt of
        None \<Rightarrow> (False, empty_message cfg)
      | Some text \<Rightarrow>
          if text = [] \<or> strip text = [] then (False, empty_message cfg)
          else if max_length cfg < length text then (False, too_long_message cfg)
          else (True, []))"

text \<open>
  Modelled from the spec: \<^verbatim>\<open>validate_priority\<close> of \<^verbatim>\<open>database/model.py\<close>, which is not
  among the sources. ``True only for the three recognized enum values'': membership in
  Low, Medium, High, which a missing value (\<open>None\<close>) does not have.
\<close>

definition validate_priority :: "string option \<Rightarrow> bool" where
  "validate_priority v = (v \<in> set [Some ''Low'', Some ''Medium'', Some ''High''])"

section \<open>Persistence (database/db_manager.py)\<close>

text \<open>
  Opening the store: a storage error when the medium cannot be reached or the table
  does not exist, the rows otherwise.
\<close>

definition connect :: "database \<Rightarrow> error + task list" where
  "connect d =
     (if \<not> reachable d then Inl (StorageError ''unable to open database'')
      else case storage d of
             None \<Rightarrow> Inl (StorageError ''no such table: tasks'')
           | Some ts \<Rightarrow> Inr ts)"

text \<open>
  Modelled from the spec: \<^verbatim>\<open>init_db\<close> of \<^verbatim>\<open>database/db_manager.py\<close>, which is not among
  the sources. ``Idempotently ensures storage exists'': an empty table is created when
  there is none, an existing one is kept.
\<close>

definition init_db :: "database \<Rightarrow> error + database" where
  "init_db d =
     (if \<not> reachable d then Inl (StorageError ''unable to open database'')
      else case storage d of
             None \<Rightarrow> Inr (d\<lparr>storage := Some []\<rparr>)
           | Some ts \<Rightarrow> Inr d)"

text \<open>
  Modelled from the spec: \<^verbatim>\<open>load_tasks\<close> of \<^verbatim>\<open>database/db_manager.py\<close>, which is not
  among the sources. ``Ordered sequence of Task: read-only snapshot.''
\<close>

definition load_tasks :: "database \<Rightarrow> error + task list" where
  "load_tasks d = connect d"

text \<open>
  The id given to the next task: one more than the largest id in the table, 1 for an
  empty table (the specification's example).
\<close>

definition new_id :: "task list \<Rightarrow> nat" where
  "new_id ts = Suc (foldr max (map row_id ts) 0)"

text \<open>
  Modelled from the spec: \<^verbatim>\<open>add_task\<close> of \<^verbatim>\<open>database/db_manager.py\<close>, which is not among
  the sources. ``Assigns a new unique id, appends''; \<^verbatim>\<open>completed\<close> defaults to false.
\<close>

definition add_task :: "string \<Rightarrow> string \<Rightarrow> database \<Rightarrow> error + (nat \<times> database)" where
  "add_task desc prio d =
     (case connect d of
        Inl e \<Rightarrow> Inl e
      | Inr ts \<Rightarrow>
          Inr (new_id ts,
               d\<lparr>storage := Some (ts @ [\<lparr>row_id = new_id ts, row_description = desc,
                                         row_priority = prio, row_completed = False\<rparr>])\<rparr>))"

text \<open>
  Modelled from the spec: \<^verbatim>\<open>update_task\<close> of \<^verbatim>\<open>database/db_manager.py\<close>, which is not
  among the sources. ``True if a task with id exists and was overwritten, else false.''
\<close>

definition update_task :: "nat \<Rightarrow> string \<Rightarrow> string \<Rightarrow> database \<Rightarrow> error + (bool \<times> database)" where
  "update_task i desc prio d =
     (case connect d of
        Inl e \<Rightarrow> Inl e
      | Inr ts \<Rightarrow>
          Inr (i \<in> set (map row_id ts),
               d\<lparr>storage := Some (map (\<lambda>t. if row_id t = i
                                            then t\<lparr>row_description := desc, row_priority := prio\<rparr>
                                            else t) ts)\<rparr>))"

text \<open>
  Modelled from the spec: \<^verbatim>\<open>delete_task\<close> of \<^verbatim>\<open>database/db_manager.py\<close>, which is not
  among the sources. ``Removed by Delete''; ``same existence contract''.
\<close>

definition delete_task :: "nat \<Rightarrow> database \<Rightarrow> error + (bool \<times> database)" where
  "delete_task i d =
     (case connect d of
        Inl e \<Rightarrow> Inl e
      | Inr ts \<Rightarrow>
          Inr (i \<in> set (map row_id ts),
               d\<lparr>storage := Some (filter (\<lambda>t. row_id t \<noteq> i) ts)\<rparr>))"

text \<open>
  Modelled from the spec: \<^verbatim>\<open>mark_task\<close> of \<^verbatim>\<open>database/db_manager.py\<close>, which is not among
  the sources. ``Mutated in place by Mark''; ``same existence contract''.
\<close>

definition mark_task :: "nat \<Rightarrow> bool \<Rightarrow> database \<Rightarrow> error + (bool \<times> database)" where
  "mark_task i c d =
     (case connect d of
        Inl e \<Rightarrow> Inl e
      | Inr ts \<Rightarrow>
          Inr (i \<in> set (map row_id ts),
               d\<lparr>storage := Some (map (\<lambda>t. if row_id t = i then t\<lparr>row_completed := c\<rparr> else t) ts)\<rparr>))"

section \<open>Request handlers (scripts/task_reminder.py)\<close>

text \<open>
  A request: the submitted form and the headers, each a list of name and value in
  which \<^verbatim>\<open>get\<close> finds the first entry of a name.
\<close>

record request =
  form :: "(string \<times> string) list"
  headers :: "(string \<times> string) list"

datatype level = INFO | WARNING | ERROR

text \<open>What the process holds between requests: the store and the lines logged so far.\<close>

record app_state =
  db :: database
  log_lines :: "(level \<times> string) list"

text \<open>
  A response: \<^verbatim>\<open>jsonify({'message': m, 'status': s})\<close>, a redirect to a URL after
  \<^verbatim>\<open>flash(m, s)\<close>, or a rendered template with its tasks and flashed messages.
\<close>

datatype response =
  Json string string
| Redirect string "string \<times> string"
| Render string "task list" "(string \<times> string) list"

text \<open>
  A handler returns a response (\<open>Inr\<close>) or lets an exception escape (\<open>Inl\<close>), and
  leaves a state behind in both cases.
\<close>

type_synonym outcome = "(error + response) \<times> app_state"

definition logger_info :: "string \<Rightarrow> app_state \<Rightarrow> app_state" where
  "logger_info m st = st\<lparr>log_lines := log_lines st @ [(INFO, m)]\<rparr>"

definition logger_warning :: "string \<Rightarrow> app_state \<Rightarrow> app_state" where
  "logger_warning m st = st\<lparr>log_lines := log_lines st @ [(WARNING, m)]\<rparr>"

definition logger_error :: "string \<Rightarrow> app_state \<Rightarrow> app_state" where
  "logger_error m st = st\<lparr>log_lines := log_lines st @ [(ERROR, m)]\<rparr>"

text \<open>\<^verbatim>\<open>url_for('index')\<close>: the route of \<^verbatim>\<open>index\<close>.\<close>

definition url_for_index :: string where
  "url_for_index = ''/''"

text \<open>
  Module start (lines 37 to 42): the store is initialised; a failure is logged and
  raised again.
\<close>

definition startup :: "app_state \<Rightarrow> (error + unit) \<times> app_state" where
  "startup st =
     (case init_db (db st) of
        Inr d \<Rightarrow> (Inr (), logger_info ''Database initialized successfully'' (st\<lparr>db := d\<rparr>))
      | Inl e \<Rightarrow> (Inl e, logger_error (''Failed to initialize database: '' @ error_text e) st))"

definition index :: "request \<Rightarrow> app_state \<Rightarrow> outcome" where
  "index req st =
     (let st = logger_info ''Rendering index page'' st
      in case load_tasks (db st) of
           Inr tasks \<Rightarrow> (Inr (Render ''index.html'' tasks []), st)
         | Inl e \<Rightarrow>
             (Inr (Render ''index.html'' [] [(''An error occurred while loading tasks.'', ''error'')]),
              logger_error (''Error loading tasks: '' @ error_text e) st))"

text \<open>
  \<^verbatim>\<open>add\<close> and \<^verbatim>\<open>update\<close> hand the description to the store after it passed validation.
  The store takes a text; a missing description that passed validation would be a
  \<^verbatim>\<open>None\<close> in its place, which is the \<open>TypeError\<close> branch (never taken, see
  \<open>valid_description_is_text\<close>).
\<close>

definition add :: "model_config \<Rightarrow> request \<Rightarrow> app_state \<Rightarrow> outcome" where
  "add cfg req st =
     (let description = map_of (form req) ''description'';
          priority = (case map_of (form req) ''priority'' of None \<Rightarrow> ''Medium'' | Some v \<Rightarrow> v);
          (is_valid, error_message) = validate_task_description cfg description
      in if \<not> is_valid then
           (let st = logger_warning (''Invalid task description: '' @ error_message) st
            in if map_of (headers req) ''X-Requested-With'' = Some ''XMLHttpRequest''
               then (Inr (Json error_message ''error''), st)
               else (Inr (Redirect url_for_index (error_message, ''error'')), st))
         else
           (let (priority, st) =
                  (if \<not> validate_priority (Some priority)
                   then (''Medium'',
                         logger_warning ''Invalid priority provided, defaulting to Medium'' st)
                   else (priority, st))
            in case description of
                 None \<Rightarrow> (Inl (TypeError ''description is None''), st)
               | Some text \<Rightarrow>
                   (let (message, status, st) =
                          (case add_task text priority (db st) of
                             Inr (task_id, d) \<Rightarrow>
                               (''Task added: '' @ text @ '' (ID: '' @ str_nat task_id
                                  @ '', Priority: '' @ priority @ '')'',
                                ''success'', st\<lparr>db := d\<rparr>)
                           | Inl e \<Rightarrow>
                               (''Failed to add task. Please try again.'', ''error'',
                                logger_error (''Error adding task: '' @ error_text e) st))
                    in if map_of (headers req) ''X-Requested-With'' = Some ''XMLHttpRequest''
                       then (Inr (Json message status), st)
                       else (Inr (Redirect url_for_index (message, status)), st))))"

definition update :: "model_config \<Rightarrow> nat \<Rightarrow> request \<Rightarrow> app_state \<Rightarrow> outcome" where
  "update cfg task_id req st =
     (let new_description = map_of (form req) ''description'';
          new_priority = map_of (form req) ''priority'';
          (is_valid, error_message) = validate_task_description cfg new_description
      in if \<not> is_valid then
           (let st = logger_warning (''Invalid task description: '' @ error_message) st
            in if map_of (headers req) ''X-Requested-With'' = Some ''XMLHttpRequest''
               then (Inr (Json error_message ''error''), st)
               else (Inr (Redirect url_for_index (error_message, ''error'')), st))
         else
           (let (new_priority, st) =
                  (if \<not> validate_priority new_priority
                   then (Some ''Medium'',
                         logger_warning ''Invalid priority provided, defaulting to Medium'' st)
                   else (new_priority, st))
            in case (new_description, new_priority) of
                 (Some text, Some prio) \<Rightarrow>
                   (let (message, status, st) =
                          (case update_task task_id text prio (db st) of
                             Inr (found, d) \<Rightarrow>
                               (if found
                                then (''Task updated: '' @ text @ '' (ID: '' @ str_nat task_id
                                        @ '', Priority: '' @ prio @ '')'',
                                      ''success'', st\<lparr>db := d\<rparr>)
                                else (''Task ID '' @ str_nat task_id @ '' not found.'',
                                      ''error'', st\<lparr>db := d\<rparr>))
                           | Inl e \<Rightarrow>
                               (''Failed to update task. Please try again.'', ''error'',
                                logger_error (''Error updating task ID '' @ str_nat task_id
                                                @ '': '' @ error_text e) st))
                    in if map_of (headers req) ''X-Requested-With'' = Some ''XMLHttpRequest''
                       then (Inr (Json message status), st)
                       else (Inr (Redirect url_for_index (message, status)), st))
               | _ \<Rightarrow> (Inl (TypeError ''description or priority is None''), st)))"

definition delete :: "nat \<Rightarrow> request \<Rightarrow> app_state \<Rightarrow> outcome" where
  "delete task_id req st =
     (let (message, status, st) =
            (case delete_task task_id (db st) of
               Inr (found, d) \<Rightarrow>
                 (if found
                  then (''Task ID '' @ str_nat task_id @ '' deleted.'', ''success'', st\<lparr>db := d\<rparr>)
                  else (''Task ID '' @ str_nat task_id @ '' not found.'', ''error'', st\<lparr>db := d\<rparr>))
             | Inl e \<Rightarrow>
                 (''Failed to delete task. Please try again.'', ''error'',
                  logger_error (''Error deleting task ID '' @ str_nat task_id
                                  @ '': '' @ error_text e) st))
      in if map_of (headers req) ''X-Requested-With'' = Some ''XMLHttpRequest''
         then (Inr (Json message status), st)
         else (Inr (Redirect url_for_index (message, status)), st))"

definition complete :: "nat \<Rightarrow> request \<Rightarrow> app_state \<Rightarrow> outcome" where
  "complete task_id req st =
     (let (message, status, st) =
            (case mark_task task_id True (db st) of
               Inr (found, d) \<Rightarrow>
                 (if found
                  then (''Task ID '' @ str_nat task_id @ '' marked as completed.'',
                        ''success'', st\<lparr>db := d\<rparr>)
                  else (''Task ID '' @ str_nat task_id @ '' not found.'', ''error'', st\<lparr>db := d\<rparr>))
             | Inl e \<Rightarrow>
                 (''Failed to mark task as complete. Please try again.'', ''error'',
                  logger_error (''Error marking task ID '' @ str_nat task_id
                                  @ '' as complete: '' @ error_text e) st))
      in if map_of (headers req) ''X-Requested-With'' = Some ''XMLHttpRequest''
         then (Inr (Json message status), st)
         else (Inr (Redirect url_for_index (message, status)), st))"

definition incomplete :: "nat \<Rightarrow> request \<Rightarrow> app_state \<Rightarrow> outcome" where
  "incomplete task_id req st =
     (let (message, status, st) =
            (case mark_task task_id False (db st) of
               Inr (found, d) \<Rightarrow>
                 (if found
                  then (''Task ID '' @ str_nat task_id @ '' marked as incomplete.'',
                        ''success'', st\<lparr>db := d\<rparr>)
                  else (''Task ID '' @ str_nat task_id @ '' not found.'', ''error'', st\<lparr>db := d\<rparr>))
             | Inl e \<Rightarrow>
                 (''Failed to mark task as incomplete. Please try again.'', ''error'',
                  logger_error (''Error marking task ID '' @ str_nat task_id
                                  @ '' as incomplete: '' @ error_text e) st))
      in if map_of (headers req) ''X-Requested-With'' = Some ''XMLHttpRequest''
         then (Inr (Json message status), st)
         else (Inr (Redirect url_for_index (message, status)), st))"

text \<open>
  The two shapes a handler's answer takes, used to state what the handlers return:
  JSON for a request marked \<^verbatim>\<open>X-Requested-With: XMLHttpRequest\<close>, a redirect to the index
  with a flashed message otherwise.
\<close>

definition reply_to :: "request \<Rightarrow> string \<Rightarrow> string \<Rightarrow> response" where
  "reply_to req m s =
     (if map_of (headers req) ''X-Requested-With'' = Some ''XMLHttpRequest''
      then Json m s else Redirect url_for_index (m, s))"

section \<open>Example values\<close>

abbreviation milk :: task where
  "milk \<equiv> \<lparr>row_id = 1, row_description = ''Buy milk'', row_priority = ''High'',
            row_completed = False\<rparr>"

abbreviation one_task_db :: database where
  "one_task_db \<equiv> \<lparr>reachable = True, storage = Some [milk]\<rparr>"

abbreviation empty_db :: database where
  "empty_db \<equiv> \<lparr>reachable = True, storage = Some []\<rparr>"

abbreviation down_db :: database where
  "down_db \<equiv> \<lparr>reachable = False, storage = Some [milk]\<rparr>"

abbreviation sample_config :: model_config where
  "sample_config \<equiv> \<lparr>max_length = 200, empty_message = ''Task description cannot be empty.'',
                     too_long_message = ''Task description is too long.''\<rparr>"

abbreviation one_task_state :: app_state where
  "one_task_state \<equiv> \<lparr>db = one_task_db, log_lines = []\<rparr>"

abbreviation down_state :: app_state where
  "down_state \<equiv> \<lparr>db = down_db, log_lines = []\<rparr>"

abbreviation blank_request :: request where
  "blank_request \<equiv> \<lparr>form = [(''description'', ''   ''), (''priority'', ''High'')], headers = []\<rparr>"

abbreviation script_request :: request where
  "script_request \<equiv> \<lparr>form = [], headers = [(''X-Requested-With'', ''XMLHttpRequest'')]\<rparr>"

abbreviation browser_request :: request where
  "browser_request \<equiv> \<lparr>form = [], headers = []\<rparr>"

abbreviation milk_request :: request where
  "milk_request \<equiv> \<lparr>form = [(''description'', ''Buy milk''), (''priority'', ''High'')], headers = []\<rparr>"

abbreviation storage_down :: error where
  "storage_down \<equiv> StorageError ''unable to open database''"

abbreviation urgent_request :: request where
  "urgent_request \<equiv> \<lparr>form = [(''description'', ''Buy milk''), (''priority'', ''Urgent'')], headers = []\<rparr>"

abbreviation empty_state :: app_state where
  "empty_state \<equiv> \<lparr>db = empty_db, log_lines = []\<rparr>"

abbreviation no_priority_request :: request where
  "no_priority_request \<equiv> \<lparr>form = [(''description'', ''Buy milk'')], headers = []\<rparr>"

section \<open>Properties of the store\<close>

lemma connect_Inr_iff: "connect d = Inr ts \<longleftrightarrow> reachable d \<and> storage d = Some ts"
  by (simp add: connect_def split: option.splits)

lemma map_absent_id:
  "i \<notin> set (map row_id ts) \<Longrightarrow> map (\<lambda>t. if row_id t = i then g t else t) ts = ts"
  by (induction ts) auto

lemma filter_absent_id:
  "i \<notin> set (map row_id ts) \<Longrightarrow> filter (\<lambda>t. row_id t \<noteq> i) ts = ts"
  by (induction ts) auto

text \<open>
  Claim C1. On a store that answers, an id that no task of the store has makes
  \<open>update_task\<close>, \<open>delete_task\<close> and \<open>mark_task\<close> each return false and leave the
  store, hence every task in it, as it was.
\<close>

theorem missing_id_no_effect:
  assumes "connect d = Inr ts" and "i \<notin> set (map row_id ts)"
  shows "update_task i desc prio d = Inr (False, d)
       \<and> delete_task i d = Inr (False, d)
       \<and> mark_task i c d = Inr (False, d)"
proof -
  from assms(1) have st: "storage d = Some ts"
    by (simp add: connect_Inr_iff)
  have same: "d\<lparr>storage := Some ts\<rparr> = d"
    using st by simp
  show ?thesis
    using assms same
    by (simp add: update_task_def delete_task_def mark_task_def map_absent_id filter_absent_id)
qed

theorem missing_id_no_effect_witness:
  "connect one_task_db = Inr [milk]
   \<and> (2::nat) \<notin> set (map row_id [milk])
   \<and> update_task 2 ''Walk'' ''Low'' one_task_db = Inr (False, one_task_db)
   \<and> delete_task 2 one_task_db = Inr (False, one_task_db)
   \<and> mark_task 2 True one_task_db = Inr (False, one_task_db)"
proof -
  have c: "connect one_task_db = Inr [milk]"
    by (simp add: connect_def)
  have n: "(2::nat) \<notin> set (map row_id [milk])"
    by simp
  show ?thesis
    using c n missing_id_no_effect [OF c n, of "''Walk''" "''Low''" True] by simp
qed

lemma foldr_max_ge: "t \<in> set ts \<Longrightarrow> row_id t \<le> foldr max (map row_id ts) 0"
  by (induction ts) (auto simp: max_def)

lemma new_id_fresh: "new_id ts \<notin> set (map row_id ts)"
proof
  assume "new_id ts \<in> set (map row_id ts)"
  then obtain t where t: "t \<in> set ts" "row_id t = new_id ts" by auto
  from foldr_max_ge [OF t(1)] t(2) show False by (simp add: new_id_def)
qed

text \<open>
  Claim C3. On a store that answers with the tasks \<open>ts\<close>, \<open>add_task\<close> returns an id, and
  \<open>load_tasks\<close> afterwards gives \<open>ts\<close> followed by one task with that id, the given
  description and priority and \<open>completed\<close> false; the id is the id of no task of \<open>ts\<close>.
\<close>

theorem add_task_then_load:
  assumes "load_tasks d = Inr ts"
  shows "\<exists>i d'. add_task desc prio d = Inr (i, d')
           \<and> load_tasks d' = Inr (ts @ [\<lparr>row_id = i, row_description = desc,
                                          row_priority = prio, row_completed = False\<rparr>])
           \<and> i \<notin> set (map row_id ts)"
  using assms new_id_fresh [of ts]
  by (simp add: add_task_def load_tasks_def connect_def split: if_splits option.splits)

theorem add_task_then_load_witness:
  "load_tasks one_task_db = Inr [milk]
   \<and> (\<exists>i d'. add_task ''Walk the dog'' ''Low'' one_task_db = Inr (i, d')
         \<and> load_tasks d' = Inr ([milk] @ [\<lparr>row_id = i, row_description = ''Walk the dog'',
                                             row_priority = ''Low'', row_completed = False\<rparr>])
         \<and> i \<notin> set (map row_id [milk]))"
proof -
  have l: "load_tasks one_task_db = Inr [milk]"
    by (simp add: load_tasks_def connect_def)
  show ?thesis
    using l add_task_then_load [OF l, of "''Walk the dog''" "''Low''"] by simp
qed

text \<open>
  Claim C8. The specification's example: the store that \<open>init_db\<close> creates is empty;
  adding ``Buy milk'' with priority High to it returns id 1, and loading then gives
  exactly that one task, not completed.
\<close>

theorem buy_milk_example:
  "init_db \<lparr>reachable = True, storage = None\<rparr> = Inr empty_db
   \<and> add_task ''Buy milk'' ''High'' empty_db = Inr (1, one_task_db)
   \<and> load_tasks one_task_db = Inr [milk]"
  by (simp add: init_db_def add_task_def load_tasks_def connect_def new_id_def)

lemma mark_twice:
  "map (\<lambda>t. if row_id t = i then t\<lparr>row_completed := c'\<rparr> else t)
     (map (\<lambda>t. if row_id t = i then t\<lparr>row_completed := c\<rparr> else t) ts)
   = map (\<lambda>t. if row_id t = i then t\<lparr>row_completed := c'\<rparr> else t) ts"
  by (induction ts) auto

lemma mark_keeps_ids:
  "map row_id (map (\<lambda>t. if row_id t = i then t\<lparr>row_completed := c\<rparr> else t) ts) = map row_id ts"
  by (induction ts) auto

lemma mark_same_flag:
  "list_all (\<lambda>t. row_id t = i \<longrightarrow> row_completed t = c) ts \<Longrightarrow>
   map (\<lambda>t. if row_id t = i then t\<lparr>row_completed := c\<rparr> else t) ts = ts"
  by (induction ts) auto

section \<open>Properties of validation\<close>

lemma dropWhile_all_iff:
  "(\<forall>c\<in>set (dropWhile P xs). P c) \<longleftrightarrow> (\<forall>c\<in>set xs. P c)"
proof
  assume all: "\<forall>c\<in>set (dropWhile P xs). P c"
  have "dropWhile P xs = []"
  proof (rule ccontr)
    assume ne: "dropWhile P xs \<noteq> []"
    then have "\<not> P (hd (dropWhile P xs))"
      by (rule hd_dropWhile)
    moreover have "hd (dropWhile P xs) \<in> set (dropWhile P xs)"
      using ne by simp
    ultimately show False using all by blast
  qed
  then show "\<forall>c\<in>set xs. P c"
    by (simp only: dropWhile_eq_Nil_conv)
next
  assume "\<forall>c\<in>set xs. P c"
  then show "\<forall>c\<in>set (dropWhile P xs). P c"
    by (blast dest: set_dropWhileD)
qed

lemma strip_empty_iff: "strip text = [] \<longleftrightarrow> list_all is_space text"
proof -
  have "strip text = [] \<longleftrightarrow> (\<forall>c\<in>set (dropWhile is_space text). is_space c)"
    by (simp add: strip_def dropWhile_eq_Nil_conv)
  then show ?thesis
    by (simp only: dropWhile_all_iff list_all_iff)
qed

lemma valid_description_is_text:
  "fst (validate_task_description cfg v) \<Longrightarrow> \<exists>text. v = Some text"
  by (cases v) (simp_all add: validate_task_description_def)

text \<open>
  Claim C2. A submitted text is accepted exactly when it is not empty, not made of
  whitespace only, and no longer than the bound; so it is rejected exactly when it is
  empty, whitespace-only or too long, and a text with something other than whitespace
  in it that is within the bound is accepted. A rejection carries one of the two
  reasons, an acceptance the empty message.
\<close>

theorem validate_task_description_rejects_iff:
  "(fst (validate_task_description cfg (Some text))
      \<longleftrightarrow> text \<noteq> [] \<and> \<not> list_all is_space text \<and> length text \<le> max_length cfg)
   \<and> (validate_task_description cfg (Some text) = (True, [])
       \<or> validate_task_description cfg (Some text) = (False, empty_message cfg)
       \<or> validate_task_description cfg (Some text) = (False, too_long_message cfg))"
  by (auto simp add: validate_task_description_def strip_empty_iff)

theorem validate_task_description_rejects_iff_witness:
  "fst (validate_task_description sample_config (Some ''Buy milk''))
   \<and> \<not> fst (validate_task_description sample_config (Some ''   ''))
   \<and> \<not> fst (validate_task_description (sample_config\<lparr>max_length := 3\<rparr>) (Some ''Buy milk''))"
  using validate_task_description_rejects_iff [of sample_config "''Buy milk''"]
    validate_task_description_rejects_iff [of sample_config "''   ''"]
    validate_task_description_rejects_iff [of "sample_config\<lparr>max_length := 3\<rparr>" "''Buy milk''"]
  by (simp add: is_space_def)

section \<open>Properties of the handlers\<close>

lemma db_logger [simp]:
  "db (logger_info m st) = db st" "db (logger_warning m st) = db st"
  "db (logger_error m st) = db st"
  by (simp_all add: logger_info_def logger_warning_def logger_error_def)

lemma add_invalid:
  assumes "\<not> fst (validate_task_description cfg (map_of (form req) ''description''))"
  shows "add cfg req st =
           (Inr (reply_to req (snd (validate_task_description cfg (map_of (form req) ''description''))) ''error''),
            logger_warning (''Invalid task description: ''
               @ snd (validate_task_description cfg (map_of (form req) ''description''))) st)"
  using assms by (simp add: add_def reply_to_def Let_def case_prod_beta)

lemma add_valid:
  assumes "map_of (form req) ''description'' = Some text"
    and "fst (validate_task_description cfg (Some text))"
    and "p = (case map_of (form req) ''priority'' of None \<Rightarrow> ''Medium'' | Some v \<Rightarrow> v)"
    and "eff = (if validate_priority (Some p) then p else ''Medium'')"
    and "st1 = (if validate_priority (Some p) then st
                else logger_warning ''Invalid priority provided, defaulting to Medium'' st)"
  shows "add cfg req st =
           (case add_task text eff (db st) of
              Inr (i, d) \<Rightarrow>
                (Inr (reply_to req (''Task added: '' @ text @ '' (ID: '' @ str_nat i
                                      @ '', Priority: '' @ eff @ '')'') ''success''),
                 st1\<lparr>db := d\<rparr>)
            | Inl e \<Rightarrow>
                (Inr (reply_to req ''Failed to add task. Please try again.'' ''error''),
                 logger_error (''Error adding task: '' @ error_text e) st1))"
  using assms by (simp add: add_def reply_to_def Let_def case_prod_beta split: sum.splits)

lemma update_invalid:
  assumes "\<not> fst (validate_task_description cfg (map_of (form req) ''description''))"
  shows "update cfg task_id req st =
           (Inr (reply_to req (snd (validate_task_description cfg (map_of (form req) ''description''))) ''error''),
            logger_warning (''Invalid task description: ''
               @ snd (validate_task_description cfg (map_of (form req) ''description''))) st)"
  using assms by (simp add: update_def reply_to_def Let_def case_prod_beta)

lemma update_valid:
  assumes "map_of (form req) ''description'' = Some text"
    and "fst (validate_task_description cfg (Some text))"
    and "q = map_of (form req) ''priority''"
    and "eff = (case q of None \<Rightarrow> ''Medium''
                | Some v \<Rightarrow> if validate_priority (Some v) then v else ''Medium'')"
    and "st1 = (if validate_priority q then st
                else logger_warning ''Invalid priority provided, defaulting to Medium'' st)"
  shows "update cfg task_id req st =
           (case update_task task_id text eff (db st) of
              Inr (found, d) \<Rightarrow>
                (if found
                 then (Inr (reply_to req (''Task updated: '' @ text @ '' (ID: '' @ str_nat task_id
                                            @ '', Priority: '' @ eff @ '')'') ''success''),
                       st1\<lparr>db := d\<rparr>)
                 else (Inr (reply_to req (''Task ID '' @ str_nat task_id @ '' not found.'') ''error''),
                       st1\<lparr>db := d\<rparr>))
            | Inl e \<Rightarrow>
                (Inr (reply_to req ''Failed to update task. Please try again.'' ''error''),
                 logger_error (''Error updating task ID '' @ str_nat task_id
                                 @ '': '' @ error_text e) st1))"
proof (cases "map_of (form req) ''priority''")
  case None
  have "\<not> validate_priority None"
    by (simp add: validate_priority_def)
  then show ?thesis
    using assms(1,2) None unfolding assms(3,4,5)
    by (simp add: update_def reply_to_def Let_def case_prod_beta split: sum.splits)
next
  case (Some v)
  show ?thesis
    using assms(1,2) Some unfolding assms(3,4,5)
    by (simp add: update_def reply_to_def Let_def case_prod_beta split: sum.splits)
qed

lemma delete_eq:
  "delete task_id req st =
     (case delete_task task_id (db st) of
        Inr (found, d) \<Rightarrow>
          (if found
           then (Inr (reply_to req (''Task ID '' @ str_nat task_id @ '' deleted.'') ''success''),
                 st\<lparr>db := d\<rparr>)
           else (Inr (reply_to req (''Task ID '' @ str_nat task_id @ '' not found.'') ''error''),
                 st\<lparr>db := d\<rparr>))
      | Inl e \<Rightarrow>
          (Inr (reply_to req ''Failed to delete task. Please try again.'' ''error''),
           logger_error (''Error deleting task ID '' @ str_nat task_id
                           @ '': '' @ error_text e) st))"
  by (simp add: delete_def reply_to_def Let_def case_prod_beta split: sum.splits)

lemma complete_eq:
  "complete task_id req st =
     (case mark_task task_id True (db st) of
        Inr (found, d) \<Rightarrow>
          (if found
           then (Inr (reply_to req (''Task ID '' @ str_nat task_id @ '' marked as completed.'')
                        ''success''), st\<lparr>db := d\<rparr>)
           else (Inr (reply_to req (''Task ID '' @ str_nat task_id @ '' not found.'') ''error''),
                 st\<lparr>db := d\<rparr>))
      | Inl e \<Rightarrow>
          (Inr (reply_to req ''Failed to mark task as complete. Please try again.'' ''error''),
           logger_error (''Error marking task ID '' @ str_nat task_id
                           @ '' as complete: '' @ error_text e) st))"
  by (simp add: complete_def reply_to_def Let_def case_prod_beta split: sum.splits)

lemma incomplete_eq:
  "incomplete task_id req st =
     (case mark_task task_id False (db st) of
        Inr (found, d) \<Rightarrow>
          (if found
           then (Inr (reply_to req (''Task ID '' @ str_nat task_id @ '' marked as incomplete.'')
                        ''success''), st\<lparr>db := d\<rparr>)
           else (Inr (reply_to req (''Task ID '' @ str_nat task_id @ '' not found.'') ''error''),
                 st\<lparr>db := d\<rparr>))
      | Inl e \<Rightarrow>
          (Inr (reply_to req ''Failed to mark task as incomplete. Please try again.'' ''error''),
           logger_error (''Error marking task ID '' @ str_nat task_id
                           @ '' as incomplete: '' @ error_text e) st))"
  by (simp add: incomplete_def reply_to_def Let_def case_prod_beta split: sum.splits)

text \<open>Every handler answers: no exception leaves it.\<close>

lemma add_answers: "\<exists>m s. fst (add cfg req st) = Inr (reply_to req m s)"
proof (cases "fst (validate_task_description cfg (map_of (form req) ''description''))")
  case False
  then show ?thesis by (simp add: add_invalid) blast
next
  case True
  then obtain body where t: "map_of (form req) ''description'' = Some body"
    using valid_description_is_text by blast
  with True have v: "fst (validate_task_description cfg (Some body))" by simp
  show ?thesis
    by (auto simp add: add_valid [OF t v refl refl refl] split: sum.splits prod.splits)
qed

lemma update_answers: "\<exists>m s. fst (update cfg task_id req st) = Inr (reply_to req m s)"
proof (cases "fst (validate_task_description cfg (map_of (form req) ''description''))")
  case False
  then show ?thesis by (simp add: update_invalid) blast
next
  case True
  then obtain body where t: "map_of (form req) ''description'' = Some body"
    using valid_description_is_text by blast
  with True have v: "fst (validate_task_description cfg (Some body))" by simp
  show ?thesis
    by (auto simp add: update_valid [OF t v refl refl refl] split: sum.splits prod.splits)
qed

lemma delete_answers: "\<exists>m s. fst (delete task_id req st) = Inr (reply_to req m s)"
  by (auto simp add: delete_eq split: sum.splits prod.splits)

lemma complete_answers: "\<exists>m s. fst (complete task_id req st) = Inr (reply_to req m s)"
  by (auto simp add: complete_eq split: sum.splits prod.splits)

lemma incomplete_answers: "\<exists>m s. fst (incomplete task_id req st) = Inr (reply_to req m s)"
  by (auto simp add: incomplete_eq split: sum.splits prod.splits)

lemma index_answers: "\<exists>ts fl. fst (index req st) = Inr (Render ''index.html'' ts fl)"
  by (simp add: index_def Let_def split: sum.splits)

lemma connect_fails:
  assumes "connect d = Inl e"
  shows "load_tasks d = Inl e" "add_task a b d = Inl e" "update_task i a b d = Inl e"
    "delete_task i d = Inl e" "mark_task i c d = Inl e"
  using assms
  by (simp_all add: load_tasks_def add_task_def update_task_def delete_task_def mark_task_def)

lemma buy_milk_valid: "fst (validate_task_description sample_config (Some ''Buy milk''))"
  by (simp add: validate_task_description_def strip_def is_space_def)

lemma mark_task_twice:
  assumes "connect d = Inr ts" and "i \<in> set (map row_id ts)"
  shows "mark_task i True d
           = Inr (True, d\<lparr>storage := Some (map (\<lambda>t. if row_id t = i then t\<lparr>row_completed := True\<rparr> else t) ts)\<rparr>)"
    and "mark_task i False (d\<lparr>storage := Some (map (\<lambda>t. if row_id t = i then t\<lparr>row_completed := True\<rparr> else t) ts)\<rparr>)
           = Inr (True, d\<lparr>storage := Some (map (\<lambda>t. if row_id t = i then t\<lparr>row_completed := False\<rparr> else t) ts)\<rparr>)"
    and "mark_task i False d
           = Inr (True, d\<lparr>storage := Some (map (\<lambda>t. if row_id t = i then t\<lparr>row_completed := False\<rparr> else t) ts)\<rparr>)"
    and "load_tasks (d\<lparr>storage := Some (map (\<lambda>t. if row_id t = i then t\<lparr>row_completed := False\<rparr> else t) ts)\<rparr>)
           = Inr (map (\<lambda>t. if row_id t = i then t\<lparr>row_completed := False\<rparr> else t) ts)"
    and "list_all (\<lambda>t. row_id t = i \<longrightarrow> row_completed t = False) ts \<Longrightarrow>
           d\<lparr>storage := Some (map (\<lambda>t. if row_id t = i then t\<lparr>row_completed := False\<rparr> else t) ts)\<rparr> = d"
proof -
  let ?f = "\<lambda>c t. if row_id t = i then t\<lparr>row_completed := c\<rparr> else t"
  from assms(1) have r: "reachable d" and s: "storage d = Some ts"
    by (simp_all add: connect_Inr_iff)
  show "mark_task i True d = Inr (True, d\<lparr>storage := Some (map (?f True) ts)\<rparr>)"
    using assms by (simp add: mark_task_def)
  have c1: "connect (d\<lparr>storage := Some (map (?f True) ts)\<rparr>) = Inr (map (?f True) ts)"
    using r by (simp add: connect_def)
  have in1: "i \<in> set (map row_id (map (?f True) ts))"
    using assms(2) by (simp only: mark_keeps_ids)
  show "mark_task i False (d\<lparr>storage := Some (map (?f True) ts)\<rparr>)
          = Inr (True, d\<lparr>storage := Some (map (?f False) ts)\<rparr>)"
    using c1 in1 by (simp add: mark_task_def mark_twice)
  show "mark_task i False d = Inr (True, d\<lparr>storage := Some (map (?f False) ts)\<rparr>)"
    using assms by (simp add: mark_task_def)
  show "load_tasks (d\<lparr>storage := Some (map (?f False) ts)\<rparr>) = Inr (map (?f False) ts)"
    using r by (simp add: load_tasks_def connect_def)
  show "list_all (\<lambda>t. row_id t = i \<longrightarrow> row_completed t = False) ts \<Longrightarrow>
           d\<lparr>storage := Some (map (?f False) ts)\<rparr> = d"
    using s by (simp add: mark_same_flag)
qed

lemma form_with_medium:
  assumes "map_of (form req) ''priority'' = None"
  shows "map_of (form (req\<lparr>form := form req @ [(''priority'', ''Medium'')]\<rparr>)) ''priority'' = Some ''Medium''"
    and "map_of (form (req\<lparr>form := form req @ [(''priority'', ''Medium'')]\<rparr>)) ''description''
           = map_of (form req) ''description''"
    and "reply_to (req\<lparr>form := form req @ [(''priority'', ''Medium'')]\<rparr>) m s = reply_to req m s"
  using assms by (simp_all add: map_add_def reply_to_def split: option.splits)

section \<open>Claims about the handlers\<close>

text \<open>
  Claim C9. When the description of an \<open>add\<close> or \<open>update\<close> request fails validation,
  the handler answers with the validation message and status error, the store after
  the request is the store before it, and the answer is the same whatever the store is
  (reachable or not): the store is not consulted.
\<close>

theorem invalid_description_store_unchanged:
  assumes "\<not> fst (validate_task_description cfg (map_of (form req) ''description''))"
  shows "fst (add cfg req st)
           = Inr (reply_to req (snd (validate_task_description cfg (map_of (form req) ''description''))) ''error'')
       \<and> db (snd (add cfg req st)) = db st
       \<and> fst (add cfg req (st\<lparr>db := d\<rparr>)) = fst (add cfg req st)
       \<and> fst (update cfg task_id req st)
           = Inr (reply_to req (snd (validate_task_description cfg (map_of (form req) ''description''))) ''error'')
       \<and> db (snd (update cfg task_id req st)) = db st
       \<and> fst (update cfg task_id req (st\<lparr>db := d\<rparr>)) = fst (update cfg task_id req st)"
  by (simp add: add_invalid [OF assms] update_invalid [OF assms])

theorem invalid_description_store_unchanged_witness:
  "\<not> fst (validate_task_description sample_config (map_of (form blank_request) ''description''))
   \<and> fst (add sample_config blank_request one_task_state)
        = Inr (Redirect ''/'' (''Task description cannot be empty.'', ''error''))
   \<and> db (snd (add sample_config blank_request one_task_state)) = one_task_db
   \<and> fst (update sample_config 1 blank_request one_task_state)
        = Inr (Redirect ''/'' (''Task description cannot be empty.'', ''error''))
   \<and> db (snd (update sample_config 1 blank_request one_task_state)) = one_task_db"
proof -
  have h: "\<not> fst (validate_task_description sample_config (map_of (form blank_request) ''description''))"
    by (simp add: validate_task_description_def strip_def is_space_def)
  have v: "snd (validate_task_description sample_config (Some ''   ''))
             = ''Task description cannot be empty.''"
    by (simp add: validate_task_description_def strip_def is_space_def)
  show ?thesis
    using h invalid_description_store_unchanged [OF h, of one_task_state one_task_db 1]
    by (simp add: v reply_to_def url_for_index_def)
qed

text \<open>
  Claim C7, for the handlers that change the store. For \<open>add\<close>, \<open>update\<close>, \<open>delete\<close>,
  \<open>complete\<close> and \<open>incomplete\<close>, whatever the outcome, the answer is JSON with a message
  and a status when the request carries \<^verbatim>\<open>X-Requested-With: XMLHttpRequest\<close>, and a
  redirect to the index with that message and status flashed otherwise. The message and
  the status are those of the outcome; the header alone selects the shape.
\<close>

theorem mutating_handlers_reply_by_origin:
  "(\<exists>m s. fst (add cfg req st)
            = Inr (if map_of (headers req) ''X-Requested-With'' = Some ''XMLHttpRequest''
                   then Json m s else Redirect url_for_index (m, s)))
   \<and> (\<exists>m s. fst (update cfg task_id req st)
            = Inr (if map_of (headers req) ''X-Requested-With'' = Some ''XMLHttpRequest''
                   then Json m s else Redirect url_for_index (m, s)))
   \<and> (\<exists>m s. fst (delete task_id req st)
            = Inr (if map_of (headers req) ''X-Requested-With'' = Some ''XMLHttpRequest''
                   then Json m s else Redirect url_for_index (m, s)))
   \<and> (\<exists>m s. fst (complete task_id req st)
            = Inr (if map_of (headers req) ''X-Requested-With'' = Some ''XMLHttpRequest''
                   then Json m s else Redirect url_for_index (m, s)))
   \<and> (\<exists>m s. fst (incomplete task_id req st)
            = Inr (if map_of (headers req) ''X-Requested-With'' = Some ''XMLHttpRequest''
                   then Json m s else Redirect url_for_index (m, s)))"
  using add_answers [of cfg req st] update_answers [of cfg task_id req st]
    delete_answers [of task_id req st] complete_answers [of task_id req st]
    incomplete_answers [of task_id req st]
  unfolding reply_to_def by (intro conjI)

theorem mutating_handlers_reply_by_origin_witness:
  "(\<exists>m s. fst (delete 1 script_request one_task_state) = Inr (Json m s))
   \<and> (\<exists>m s. fst (delete 1 browser_request one_task_state) = Inr (Redirect ''/'' (m, s)))"
  using mutating_handlers_reply_by_origin [of sample_config script_request one_task_state 1]
    mutating_handlers_reply_by_origin [of sample_config browser_request one_task_state 1]
  by (simp add: url_for_index_def)

text \<open>
  Claim C7 does not hold of the handler \<open>index\<close>: for a request marked as coming from a
  script it renders the page with the tasks, it does not answer in JSON.
\<close>

theorem index_ignores_origin:
  "fst (index script_request one_task_state) = Inr (Render ''index.html'' [milk] [])"
  by (simp add: index_def Let_def load_tasks_def connect_def logger_info_def)

text \<open>
  Claim C6. Every handler returns a response for every request and state: no exception
  leaves it. When the store raises, \<open>index\<close> renders an empty list with an error
  flashed, and \<open>add\<close>, \<open>update\<close> (for a description that passed validation), \<open>delete\<close>,
  \<open>complete\<close> and \<open>incomplete\<close> answer with their fixed failure message and status
  error, the store being left as it was. At start-up a failing \<open>init_db\<close> is logged and
  raised again.
\<close>

theorem storage_failure_is_caught:
  "(\<exists>r. fst (index req st) = Inr r) \<and> (\<exists>r. fst (add cfg req st) = Inr r)
   \<and> (\<exists>r. fst (update cfg task_id req st) = Inr r) \<and> (\<exists>r. fst (delete task_id req st) = Inr r)
   \<and> (\<exists>r. fst (complete task_id req st) = Inr r) \<and> (\<exists>r. fst (incomplete task_id req st) = Inr r)
   \<and> (connect (db st) = Inl e \<longrightarrow>
        fst (index req st)
          = Inr (Render ''index.html'' [] [(''An error occurred while loading tasks.'', ''error'')])
        \<and> (fst (validate_task_description cfg (map_of (form req) ''description'')) \<longrightarrow>
             fst (add cfg req st)
               = Inr (reply_to req ''Failed to add task. Please try again.'' ''error'')
             \<and> fst (update cfg task_id req st)
               = Inr (reply_to req ''Failed to update task. Please try again.'' ''error''))
        \<and> fst (delete task_id req st)
             = Inr (reply_to req ''Failed to delete task. Please try again.'' ''error'')
        \<and> fst (complete task_id req st)
             = Inr (reply_to req ''Failed to mark task as complete. Please try again.'' ''error'')
        \<and> fst (incomplete task_id req st)
             = Inr (reply_to req ''Failed to mark task as incomplete. Please try again.'' ''error'')
        \<and> db (snd (index req st)) = db st \<and> db (snd (add cfg req st)) = db st
        \<and> db (snd (update cfg task_id req st)) = db st \<and> db (snd (delete task_id req st)) = db st
        \<and> db (snd (complete task_id req st)) = db st
        \<and> db (snd (incomplete task_id req st)) = db st)
   \<and> (init_db (db st) = Inl e \<longrightarrow>
        startup st = (Inl e, logger_error (''Failed to initialize database: '' @ error_text e) st))"
proof -
  have answers: "(\<exists>r. fst (index req st) = Inr r) \<and> (\<exists>r. fst (add cfg req st) = Inr r)
     \<and> (\<exists>r. fst (update cfg task_id req st) = Inr r) \<and> (\<exists>r. fst (delete task_id req st) = Inr r)
     \<and> (\<exists>r. fst (complete task_id req st) = Inr r) \<and> (\<exists>r. fst (incomplete task_id req st) = Inr r)"
    using index_answers [of req st] add_answers [of cfg req st] update_answers [of cfg task_id req st]
      delete_answers [of task_id req st] complete_answers [of task_id req st]
      incomplete_answers [of task_id req st]
    by blast
  have start: "init_db (db st) = Inl e \<longrightarrow>
        startup st = (Inl e, logger_error (''Failed to initialize database: '' @ error_text e) st)"
    by (simp add: startup_def)
  have down: "connect (db st) = Inl e \<longrightarrow>
        fst (index req st)
          = Inr (Render ''index.html'' [] [(''An error occurred while loading tasks.'', ''error'')])
        \<and> (fst (validate_task_description cfg (map_of (form req) ''description'')) \<longrightarrow>
             fst (add cfg req st)
               = Inr (reply_to req ''Failed to add task. Please try again.'' ''error'')
             \<and> fst (update cfg task_id req st)
               = Inr (reply_to req ''Failed to update task. Please try again.'' ''error''))
        \<and> fst (delete task_id req st)
             = Inr (reply_to req ''Failed to delete task. Please try again.'' ''error'')
        \<and> fst (complete task_id req st)
             = Inr (reply_to req ''Failed to mark task as complete. Please try again.'' ''error'')
        \<and> fst (incomplete task_id req st)
             = Inr (reply_to req ''Failed to mark task as incomplete. Please try again.'' ''error'')
        \<and> db (snd (index req st)) = db st \<and> db (snd (add cfg req st)) = db st
        \<and> db (snd (update cfg task_id req st)) = db st \<and> db (snd (delete task_id req st)) = db st
        \<and> db (snd (complete task_id req st)) = db st
        \<and> db (snd (incomplete task_id req st)) = db st"
  proof
    assume c: "connect (db st) = Inl e"
    have i: "fst (index req st)
          = Inr (Render ''index.html'' [] [(''An error occurred while loading tasks.'', ''error'')])"
      "db (snd (index req st)) = db st"
      using connect_fails(1) [OF c] by (simp_all add: index_def Let_def)
    have d: "fst (delete task_id req st)
             = Inr (reply_to req ''Failed to delete task. Please try again.'' ''error'')"
      "db (snd (delete task_id req st)) = db st"
      by (simp_all add: delete_eq connect_fails(4) [OF c])
    have m: "fst (complete task_id req st)
             = Inr (reply_to req ''Failed to mark task as complete. Please try again.'' ''error'')"
      "db (snd (complete task_id req st)) = db st"
      "fst (incomplete task_id req st)
             = Inr (reply_to req ''Failed to mark task as incomplete. Please try again.'' ''error'')"
      "db (snd (incomplete task_id req st)) = db st"
      by (simp_all add: complete_eq incomplete_eq connect_fails(5) [OF c])
    have au: "fst (validate_task_description cfg (map_of (form req) ''description'')) \<longrightarrow>
             fst (add cfg req st)
               = Inr (reply_to req ''Failed to add task. Please try again.'' ''error'')
             \<and> fst (update cfg task_id req st)
               = Inr (reply_to req ''Failed to update task. Please try again.'' ''error'')"
    proof
      assume ok: "fst (validate_task_description cfg (map_of (form req) ''description''))"
      then obtain body where t: "map_of (form req) ''description'' = Some body"
        using valid_description_is_text by blast
      with ok have v: "fst (validate_task_description cfg (Some body))" by simp
      show "fst (add cfg req st)
               = Inr (reply_to req ''Failed to add task. Please try again.'' ''error'')
             \<and> fst (update cfg task_id req st)
               = Inr (reply_to req ''Failed to update task. Please try again.'' ''error'')"
        by (simp add: add_valid [OF t v refl refl refl] update_valid [OF t v refl refl refl]
            connect_fails(2,3) [OF c])
    qed
    have dbs: "db (snd (add cfg req st)) = db st" "db (snd (update cfg task_id req st)) = db st"
    proof -
      show "db (snd (add cfg req st)) = db st"
      proof (cases "fst (validate_task_description cfg (map_of (form req) ''description''))")
        case False
        then show ?thesis by (simp add: add_invalid)
      next
        case True
        then obtain body where t: "map_of (form req) ''description'' = Some body"
          using valid_description_is_text by blast
        with True have v: "fst (validate_task_description cfg (Some body))" by simp
        show ?thesis
          by (simp add: add_valid [OF t v refl refl refl] connect_fails(2) [OF c])
      qed
      show "db (snd (update cfg task_id req st)) = db st"
      proof (cases "fst (validate_task_description cfg (map_of (form req) ''description''))")
        case False
        then show ?thesis by (simp add: update_invalid)
      next
        case True
        then obtain body where t: "map_of (form req) ''description'' = Some body"
          using valid_description_is_text by blast
        with True have v: "fst (validate_task_description cfg (Some body))" by simp
        show ?thesis
          by (simp add: update_valid [OF t v refl refl refl] connect_fails(3) [OF c])
      qed
    qed
    from i d m au dbs
    show "fst (index req st)
          = Inr (Render ''index.html'' [] [(''An error occurred while loading tasks.'', ''error'')])
        \<and> (fst (validate_task_description cfg (map_of (form req) ''description'')) \<longrightarrow>
             fst (add cfg req st)
               = Inr (reply_to req ''Failed to add task. Please try again.'' ''error'')
             \<and> fst (update cfg task_id req st)
               = Inr (reply_to req ''Failed to update task. Please try again.'' ''error''))
        \<and> fst (delete task_id req st)
             = Inr (reply_to req ''Failed to delete task. Please try again.'' ''error'')
        \<and> fst (complete task_id req st)
             = Inr (reply_to req ''Failed to mark task as complete. Please try again.'' ''error'')
        \<and> fst (incomplete task_id req st)
             = Inr (reply_to req ''Failed to mark task as incomplete. Please try again.'' ''error'')
        \<and> db (snd (index req st)) = db st \<and> db (snd (add cfg req st)) = db st
        \<and> db (snd (update cfg task_id req st)) = db st \<and> db (snd (delete task_id req st)) = db st
        \<and> db (snd (complete task_id req st)) = db st
        \<and> db (snd (incomplete task_id req st)) = db st"
      by (intro conjI)
  qed
  from answers down start show ?thesis by (intro conjI) (erule conjE | assumption)+
qed

theorem storage_failure_is_caught_witness:
  "connect (db down_state) = Inl storage_down
   \<and> init_db (db down_state) = Inl storage_down
   \<and> fst (validate_task_description sample_config (map_of (form milk_request) ''description''))
   \<and> fst (index milk_request down_state)
        = Inr (Render ''index.html'' [] [(''An error occurred while loading tasks.'', ''error'')])
   \<and> fst (add sample_config milk_request down_state)
        = Inr (Redirect ''/'' (''Failed to add task. Please try again.'', ''error''))
   \<and> fst (update sample_config 1 milk_request down_state)
        = Inr (Redirect ''/'' (''Failed to update task. Please try again.'', ''error''))
   \<and> fst (delete 1 milk_request down_state)
        = Inr (Redirect ''/'' (''Failed to delete task. Please try again.'', ''error''))
   \<and> fst (startup down_state) = Inl storage_down"
proof -
  have c: "connect (db down_state) = Inl storage_down"
    by (simp add: connect_def)
  have i: "init_db (db down_state) = Inl storage_down"
    by (simp add: init_db_def)
  have v: "fst (validate_task_description sample_config (map_of (form milk_request) ''description''))"
    by (simp add: validate_task_description_def strip_def is_space_def)
  show ?thesis
    using c i v storage_failure_is_caught [of milk_request down_state sample_config 1 storage_down]
    by (simp add: reply_to_def url_for_index_def)
qed

text \<open>
  Claim C4. \<open>validate_priority\<close> holds exactly for Low, Medium and High. For a request
  whose description passed validation: a submitted priority that is recognised is the
  priority \<open>add\<close> and \<open>update\<close> hand to the store and report back; one that is not
  recognised is replaced by Medium, a warning is logged, and the handler goes on to the
  store as it does for a recognised value.
\<close>

theorem priority_fallback:
  assumes "map_of (form req) ''description'' = Some body"
    and "fst (validate_task_description cfg (Some body))"
  shows "(validate_priority v \<longleftrightarrow> v = Some ''Low'' \<or> v = Some ''Medium'' \<or> v = Some ''High'')
    \<and> (map_of (form req) ''priority'' = Some p \<and> validate_priority (Some p) \<longrightarrow>
          (add_task body p (db st) = Inr (i, d) \<longrightarrow>
             add cfg req st
               = (Inr (reply_to req (''Task added: '' @ body @ '' (ID: '' @ str_nat i
                                        @ '', Priority: '' @ p @ '')'') ''success''),
                  st\<lparr>db := d\<rparr>))
          \<and> (update_task task_id body p (db st) = Inr (found, d) \<longrightarrow>
             update cfg task_id req st
               = (Inr (if found
                       then reply_to req (''Task updated: '' @ body @ '' (ID: '' @ str_nat task_id
                                            @ '', Priority: '' @ p @ '')'') ''success''
                       else reply_to req (''Task ID '' @ str_nat task_id @ '' not found.'') ''error''),
                  st\<lparr>db := d\<rparr>)))
    \<and> (map_of (form req) ''priority'' = Some p \<and> \<not> validate_priority (Some p) \<longrightarrow>
          (add_task body ''Medium'' (db st) = Inr (i, d) \<longrightarrow>
             add cfg req st
               = (Inr (reply_to req (''Task added: '' @ body @ '' (ID: '' @ str_nat i
                                        @ '', Priority: '' @ ''Medium'' @ '')'') ''success''),
                  (logger_warning ''Invalid priority provided, defaulting to Medium'' st)\<lparr>db := d\<rparr>))
          \<and> (update_task task_id body ''Medium'' (db st) = Inr (found, d) \<longrightarrow>
             update cfg task_id req st
               = (Inr (if found
                       then reply_to req (''Task updated: '' @ body @ '' (ID: '' @ str_nat task_id
                                            @ '', Priority: '' @ ''Medium'' @ '')'') ''success''
                       else reply_to req (''Task ID '' @ str_nat task_id @ '' not found.'') ''error''),
                  (logger_warning ''Invalid priority provided, defaulting to Medium'' st)\<lparr>db := d\<rparr>)))"
proof -
  have vp: "validate_priority v \<longleftrightarrow> v = Some ''Low'' \<or> v = Some ''Medium'' \<or> v = Some ''High''"
    by (simp add: validate_priority_def)
  have known: "map_of (form req) ''priority'' = Some p \<and> validate_priority (Some p) \<longrightarrow>
          (add_task body p (db st) = Inr (i, d) \<longrightarrow>
             add cfg req st
               = (Inr (reply_to req (''Task added: '' @ body @ '' (ID: '' @ str_nat i
                                        @ '', Priority: '' @ p @ '')'') ''success''),
                  st\<lparr>db := d\<rparr>))
          \<and> (update_task task_id body p (db st) = Inr (found, d) \<longrightarrow>
             update cfg task_id req st
               = (Inr (if found
                       then reply_to req (''Task updated: '' @ body @ '' (ID: '' @ str_nat task_id
                                            @ '', Priority: '' @ p @ '')'') ''success''
                       else reply_to req (''Task ID '' @ str_nat task_id @ '' not found.'') ''error''),
                  st\<lparr>db := d\<rparr>))"
    by (simp add: add_valid [OF assms refl refl refl] update_valid [OF assms refl refl refl])
  have unknown: "map_of (form req) ''priority'' = Some p \<and> \<not> validate_priority (Some p) \<longrightarrow>
          (add_task body ''Medium'' (db st) = Inr (i, d) \<longrightarrow>
             add cfg req st
               = (Inr (reply_to req (''Task added: '' @ body @ '' (ID: '' @ str_nat i
                                        @ '', Priority: '' @ ''Medium'' @ '')'') ''success''),
                  (logger_warning ''Invalid priority provided, defaulting to Medium'' st)\<lparr>db := d\<rparr>))
          \<and> (update_task task_id body ''Medium'' (db st) = Inr (found, d) \<longrightarrow>
             update cfg task_id req st
               = (Inr (if found
                       then reply_to req (''Task updated: '' @ body @ '' (ID: '' @ str_nat task_id
                                            @ '', Priority: '' @ ''Medium'' @ '')'') ''success''
                       else reply_to req (''Task ID '' @ str_nat task_id @ '' not found.'') ''error''),
                  (logger_warning ''Invalid priority provided, defaulting to Medium'' st)\<lparr>db := d\<rparr>))"
    by (simp add: add_valid [OF assms refl refl refl] update_valid [OF assms refl refl refl])
  from vp known unknown show ?thesis by (intro conjI)
qed


theorem priority_fallback_witness:
  "map_of (form milk_request) ''description'' = Some ''Buy milk''
   \<and> fst (validate_task_description sample_config (Some ''Buy milk''))
   \<and> validate_priority (Some ''High'') \<and> \<not> validate_priority (Some ''Urgent'')
   \<and> add sample_config milk_request empty_state
        = (Inr (Redirect ''/'' (''Task added: Buy milk (ID: 1, Priority: High)'', ''success'')),
           one_task_state)
   \<and> add sample_config urgent_request empty_state
        = (Inr (Redirect ''/'' (''Task added: Buy milk (ID: 1, Priority: Medium)'', ''success'')),
           \<lparr>db = \<lparr>reachable = True, storage = Some [milk\<lparr>row_priority := ''Medium''\<rparr>]\<rparr>,
              log_lines = [(WARNING, ''Invalid priority provided, defaulting to Medium'')]\<rparr>)
   \<and> update sample_config 1 urgent_request one_task_state
        = (Inr (Redirect ''/'' (''Task updated: Buy milk (ID: 1, Priority: Medium)'', ''success'')),
           \<lparr>db = \<lparr>reachable = True, storage = Some [milk\<lparr>row_priority := ''Medium''\<rparr>]\<rparr>,
              log_lines = [(WARNING, ''Invalid priority provided, defaulting to Medium'')]\<rparr>)"
proof -
  have h: "map_of (form milk_request) ''description'' = Some ''Buy milk''"
    by simp
  have u: "map_of (form urgent_request) ''description'' = Some ''Buy milk''"
    by simp
  have a1: "add_task ''Buy milk'' ''High'' (db empty_state) = Inr (1, one_task_db)"
    by (simp add: add_task_def connect_def new_id_def)
  have a2: "add_task ''Buy milk'' ''Medium'' (db empty_state)
              = Inr (1, \<lparr>reachable = True, storage = Some [milk\<lparr>row_priority := ''Medium''\<rparr>]\<rparr>)"
    by (simp add: add_task_def connect_def new_id_def)
  have u2: "update_task 1 ''Buy milk'' ''Medium'' (db one_task_state)
              = Inr (True, \<lparr>reachable = True, storage = Some [milk\<lparr>row_priority := ''Medium''\<rparr>]\<rparr>)"
    by (simp add: update_task_def connect_def)
  have s1: "str_nat (Suc 0) = ''1''"
    by (simp add: str_nat.simps)
  have p1: "validate_priority (Some ''High'')" and p2: "\<not> validate_priority (Some ''Urgent'')"
    by (simp_all add: validate_priority_def)
  note t1 = priority_fallback [OF h buy_milk_valid, where p = "''High''" and st = empty_state
      and i = 1 and d = one_task_db and task_id = 1 and found = False and v = "Some ''High''"]
  note t2 = priority_fallback [OF u buy_milk_valid, where p = "''Urgent''" and st = empty_state
      and i = 1 and task_id = 1 and found = False and v = "Some ''Urgent''"
      and d = "\<lparr>reachable = True, storage = Some [milk\<lparr>row_priority := ''Medium''\<rparr>]\<rparr>"]
  note t3 = priority_fallback [OF u buy_milk_valid, where p = "''Urgent''" and st = one_task_state
      and task_id = 1 and found = True and i = 1 and v = "Some ''Urgent''"
      and d = "\<lparr>reachable = True, storage = Some [milk\<lparr>row_priority := ''Medium''\<rparr>]\<rparr>"]
  show ?thesis
    using t1 t2 t3 a1 a2 u2 p1 p2 buy_milk_valid
    by (simp add: s1 reply_to_def url_for_index_def logger_warning_def)
qed

text \<open>
  Claim C5. On a store that answers and holds a task with the id, \<open>mark_task\<close> with true
  and then with false both find the task; afterwards the tasks are the original ones with
  \<open>completed\<close> false on that id, the store is the one a single \<open>mark_task\<close> with false
  gives, and it is the original store when the flag was false to begin with. The
  handlers \<open>complete\<close> and then \<open>incomplete\<close> perform exactly these two steps and report
  success.
\<close>

theorem mark_round_trip:
  assumes "connect (db st) = Inr ts" and "i \<in> set (map row_id ts)"
  shows "\<exists>d1 d2. mark_task i True (db st) = Inr (True, d1)
           \<and> mark_task i False d1 = Inr (True, d2)
           \<and> load_tasks d2 = Inr (map (\<lambda>t. if row_id t = i then t\<lparr>row_completed := False\<rparr> else t) ts)
           \<and> mark_task i False (db st) = Inr (True, d2)
           \<and> (list_all (\<lambda>t. row_id t = i \<longrightarrow> row_completed t = False) ts \<longrightarrow> d2 = db st)
           \<and> complete i req st
               = (Inr (reply_to req (''Task ID '' @ str_nat i @ '' marked as completed.'') ''success''),
                  st\<lparr>db := d1\<rparr>)
           \<and> incomplete i req' (st\<lparr>db := d1\<rparr>)
               = (Inr (reply_to req' (''Task ID '' @ str_nat i @ '' marked as incomplete.'') ''success''),
                  st\<lparr>db := d2\<rparr>)"
proof -
  let ?f = "\<lambda>c t. if row_id t = i then t\<lparr>row_completed := c\<rparr> else t"
  let ?d1 = "(db st)\<lparr>storage := Some (map (?f True) ts)\<rparr>"
  let ?d2 = "(db st)\<lparr>storage := Some (map (?f False) ts)\<rparr>"
  note m = mark_task_twice [OF assms]
  have same: "list_all (\<lambda>t. row_id t = i \<longrightarrow> row_completed t = False) ts \<longrightarrow> ?d2 = db st"
    using m(5) by blast
  have c: "complete i req st
               = (Inr (reply_to req (''Task ID '' @ str_nat i @ '' marked as completed.'') ''success''),
                  st\<lparr>db := ?d1\<rparr>)"
    by (simp add: complete_eq m(1))
  have ic: "incomplete i req' (st\<lparr>db := ?d1\<rparr>)
               = (Inr (reply_to req' (''Task ID '' @ str_nat i @ '' marked as incomplete.'') ''success''),
                  st\<lparr>db := ?d2\<rparr>)"
    by (simp add: incomplete_eq m(2))
  from m(1) m(2) m(4) m(3) same c ic show ?thesis by blast
qed

theorem mark_round_trip_witness:
  "connect (db one_task_state) = Inr [milk] \<and> (1::nat) \<in> set (map row_id [milk])
   \<and> list_all (\<lambda>t. row_id t = 1 \<longrightarrow> row_completed t = False) [milk]
   \<and> (\<exists>d1. mark_task 1 True (db one_task_state) = Inr (True, d1)
         \<and> mark_task 1 False d1 = Inr (True, db one_task_state)
         \<and> load_tasks (db one_task_state) = Inr [milk]
         \<and> complete 1 browser_request one_task_state
             = (Inr (Redirect ''/'' (''Task ID 1 marked as completed.'', ''success'')),
                one_task_state\<lparr>db := d1\<rparr>)
         \<and> incomplete 1 script_request (one_task_state\<lparr>db := d1\<rparr>)
             = (Inr (Json ''Task ID 1 marked as incomplete.'' ''success''), one_task_state))"
proof -
  have c: "connect (db one_task_state) = Inr [milk]"
    by (simp add: connect_def)
  have n: "(1::nat) \<in> set (map row_id [milk])"
    by simp
  have l: "list_all (\<lambda>t. row_id t = 1 \<longrightarrow> row_completed t = False) [milk]"
    by simp
  have s1: "str_nat 1 = ''1''"
    by (simp add: str_nat.simps)
  from mark_round_trip [OF c n, of browser_request script_request] obtain d1 d2 where
    m1: "mark_task 1 True (db one_task_state) = Inr (True, d1)"
    and m2: "mark_task 1 False d1 = Inr (True, d2)"
    and l2: "load_tasks d2 = Inr (map (\<lambda>t. if row_id t = 1 then t\<lparr>row_completed := False\<rparr> else t) [milk])"
    and same: "list_all (\<lambda>t. row_id t = 1 \<longrightarrow> row_completed t = False) [milk] \<longrightarrow> d2 = db one_task_state"
    and h1: "complete 1 browser_request one_task_state
             = (Inr (reply_to browser_request (''Task ID '' @ str_nat 1 @ '' marked as completed.'') ''success''),
                one_task_state\<lparr>db := d1\<rparr>)"
    and h2: "incomplete 1 script_request (one_task_state\<lparr>db := d1\<rparr>)
             = (Inr (reply_to script_request (''Task ID '' @ str_nat 1 @ '' marked as incomplete.'') ''success''),
                one_task_state\<lparr>db := d2\<rparr>)"
    by blast
  from same l have d2: "d2 = db one_task_state" by blast
  have l2': "load_tasks (db one_task_state) = Inr [milk]"
    using l2 unfolding d2 by simp
  have h1': "complete 1 browser_request one_task_state
             = (Inr (Redirect ''/'' (''Task ID 1 marked as completed.'', ''success'')),
                one_task_state\<lparr>db := d1\<rparr>)"
    unfolding h1 s1 by (simp add: reply_to_def url_for_index_def)
  have h2': "incomplete 1 script_request (one_task_state\<lparr>db := d1\<rparr>)
             = (Inr (Json ''Task ID 1 marked as incomplete.'' ''success''), one_task_state)"
    unfolding h2 s1 d2 by (simp add: reply_to_def)
  from m1 m2 [unfolded d2] l2' h1' h2' have
    "\<exists>d1. mark_task 1 True (db one_task_state) = Inr (True, d1)
         \<and> mark_task 1 False d1 = Inr (True, db one_task_state)
         \<and> load_tasks (db one_task_state) = Inr [milk]
         \<and> complete 1 browser_request one_task_state
             = (Inr (Redirect ''/'' (''Task ID 1 marked as completed.'', ''success'')),
                one_task_state\<lparr>db := d1\<rparr>)
         \<and> incomplete 1 script_request (one_task_state\<lparr>db := d1\<rparr>)
             = (Inr (Json ''Task ID 1 marked as incomplete.'' ''success''), one_task_state)"
    by blast
  with c n l show ?thesis by (intro conjI)
qed

text \<open>
  Claim C10. When the form has no priority field, \<open>update\<close> reads \<open>None\<close>, which
  \<open>validate_priority\<close> does not accept, logs the warning and hands Medium to the store;
  \<open>add\<close> reads Medium as the default of the form lookup, so it behaves, log included, as
  for a form that carries Medium. Both handlers answer, and \<open>update\<close> answers and changes
  the store as for a form that carries Medium.
\<close>

theorem absent_priority_defaults:
  assumes "map_of (form req) ''priority'' = None"
  shows "\<not> validate_priority (map_of (form req) ''priority'')
    \<and> add cfg req st = add cfg (req\<lparr>form := form req @ [(''priority'', ''Medium'')]\<rparr>) st
    \<and> fst (update cfg task_id req st)
        = fst (update cfg task_id (req\<lparr>form := form req @ [(''priority'', ''Medium'')]\<rparr>) st)
    \<and> db (snd (update cfg task_id req st))
        = db (snd (update cfg task_id (req\<lparr>form := form req @ [(''priority'', ''Medium'')]\<rparr>) st))
    \<and> (\<exists>r. fst (add cfg req st) = Inr r) \<and> (\<exists>r. fst (update cfg task_id req st) = Inr r)
    \<and> (map_of (form req) ''description'' = Some body
         \<and> fst (validate_task_description cfg (Some body)) \<longrightarrow>
          (add_task body ''Medium'' (db st) = Inr (i, d) \<longrightarrow>
             add cfg req st
               = (Inr (reply_to req (''Task added: '' @ body @ '' (ID: '' @ str_nat i
                                        @ '', Priority: '' @ ''Medium'' @ '')'') ''success''),
                  st\<lparr>db := d\<rparr>))
          \<and> (update_task task_id body ''Medium'' (db st) = Inr (found, d) \<longrightarrow>
             update cfg task_id req st
               = (Inr (if found
                       then reply_to req (''Task updated: '' @ body @ '' (ID: '' @ str_nat task_id
                                            @ '', Priority: '' @ ''Medium'' @ '')'') ''success''
                       else reply_to req (''Task ID '' @ str_nat task_id @ '' not found.'') ''error''),
                  (logger_warning ''Invalid priority provided, defaulting to Medium'' st)\<lparr>db := d\<rparr>)))"
proof -
  let ?req = "req\<lparr>form := form req @ [(''priority'', ''Medium'')]\<rparr>"
  note f = form_with_medium [OF assms]
  have none: "\<not> validate_priority (map_of (form req) ''priority'')"
    using assms by (simp add: validate_priority_def)
  have medium: "validate_priority (Some ''Medium'')"
    by (simp add: validate_priority_def)
  have hd: "headers ?req = headers req"
    by simp
  have a: "add cfg req st = add cfg ?req st"
    unfolding add_def f(1,2) hd assms using medium by simp
  have u: "fst (update cfg task_id req st) = fst (update cfg task_id ?req st)
         \<and> db (snd (update cfg task_id req st)) = db (snd (update cfg task_id ?req st))"
  proof (cases "fst (validate_task_description cfg (map_of (form req) ''description''))")
    case False
    then have "\<not> fst (validate_task_description cfg (map_of (form ?req) ''description''))"
      unfolding f(2) .
    from update_invalid [OF False, of task_id st]
      update_invalid [OF this, of task_id st, unfolded f]
    show ?thesis by simp
  next
    case True
    then obtain body' where t: "map_of (form req) ''description'' = Some body'"
      using valid_description_is_text by blast
    with True have v: "fst (validate_task_description cfg (Some body'))" by simp
    have t': "map_of (form ?req) ''description'' = Some body'"
      using t by (simp only: f(2))
    from update_valid [OF t v refl refl refl, of task_id st, unfolded assms]
      update_valid [OF t' v refl refl refl, of task_id st, unfolded f]
    show ?thesis
      using medium none by (simp add: assms split: sum.splits)
  qed
  have ans: "(\<exists>r. fst (add cfg req st) = Inr r) \<and> (\<exists>r. fst (update cfg task_id req st) = Inr r)"
    using add_answers [of cfg req st] update_answers [of cfg task_id req st] by blast
  have stored: "map_of (form req) ''description'' = Some body
         \<and> fst (validate_task_description cfg (Some body)) \<longrightarrow>
          (add_task body ''Medium'' (db st) = Inr (i, d) \<longrightarrow>
             add cfg req st
               = (Inr (reply_to req (''Task added: '' @ body @ '' (ID: '' @ str_nat i
                                        @ '', Priority: '' @ ''Medium'' @ '')'') ''success''),
                  st\<lparr>db := d\<rparr>))
          \<and> (update_task task_id body ''Medium'' (db st) = Inr (found, d) \<longrightarrow>
             update cfg task_id req st
               = (Inr (if found
                       then reply_to req (''Task updated: '' @ body @ '' (ID: '' @ str_nat task_id
                                            @ '', Priority: '' @ ''Medium'' @ '')'') ''success''
                       else reply_to req (''Task ID '' @ str_nat task_id @ '' not found.'') ''error''),
                  (logger_warning ''Invalid priority provided, defaulting to Medium'' st)\<lparr>db := d\<rparr>))"
  proof
    assume h: "map_of (form req) ''description'' = Some body
         \<and> fst (validate_task_description cfg (Some body))"
    then have t: "map_of (form req) ''description'' = Some body"
      and v: "fst (validate_task_description cfg (Some body))"
      by simp_all
    show "(add_task body ''Medium'' (db st) = Inr (i, d) \<longrightarrow>
             add cfg req st
               = (Inr (reply_to req (''Task added: '' @ body @ '' (ID: '' @ str_nat i
                                        @ '', Priority: '' @ ''Medium'' @ '')'') ''success''),
                  st\<lparr>db := d\<rparr>))
          \<and> (update_task task_id body ''Medium'' (db st) = Inr (found, d) \<longrightarrow>
             update cfg task_id req st
               = (Inr (if found
                       then reply_to req (''Task updated: '' @ body @ '' (ID: '' @ str_nat task_id
                                            @ '', Priority: '' @ ''Medium'' @ '')'') ''success''
                       else reply_to req (''Task ID '' @ str_nat task_id @ '' not found.'') ''error''),
                  (logger_warning ''Invalid priority provided, defaulting to Medium'' st)\<lparr>db := d\<rparr>))"
      using medium
      by (simp add: add_valid [OF t v refl refl refl] update_valid [OF t v refl refl refl]
          assms validate_priority_def)
  qed
  from none a u ans stored show ?thesis by (intro conjI) (erule conjE | assumption)+
qed

theorem absent_priority_defaults_witness:
  "map_of (form no_priority_request) ''priority'' = None
   \<and> map_of (form no_priority_request) ''description'' = Some ''Buy milk''
   \<and> fst (validate_task_description sample_config (Some ''Buy milk''))
   \<and> add sample_config no_priority_request empty_state
        = (Inr (Redirect ''/'' (''Task added: Buy milk (ID: 1, Priority: Medium)'', ''success'')),
           \<lparr>db = \<lparr>reachable = True, storage = Some [milk\<lparr>row_priority := ''Medium''\<rparr>]\<rparr>,
              log_lines = []\<rparr>)
   \<and> update sample_config 1 no_priority_request one_task_state
        = (Inr (Redirect ''/'' (''Task updated: Buy milk (ID: 1, Priority: Medium)'', ''success'')),
           \<lparr>db = \<lparr>reachable = True, storage = Some [milk\<lparr>row_priority := ''Medium''\<rparr>]\<rparr>,
              log_lines = [(WARNING, ''Invalid priority provided, defaulting to Medium'')]\<rparr>)"
proof -
  have h: "map_of (form no_priority_request) ''priority'' = None"
    by simp
  have t: "map_of (form no_priority_request) ''description'' = Some ''Buy milk''"
    by simp
  have a2: "add_task ''Buy milk'' ''Medium'' (db empty_state)
              = Inr (1, \<lparr>reachable = True, storage = Some [milk\<lparr>row_priority := ''Medium''\<rparr>]\<rparr>)"
    by (simp add: add_task_def connect_def new_id_def)
  have u2: "update_task 1 ''Buy milk'' ''Medium'' (db one_task_state)
              = Inr (True, \<lparr>reachable = True, storage = Some [milk\<lparr>row_priority := ''Medium''\<rparr>]\<rparr>)"
    by (simp add: update_task_def connect_def)
  have s1: "str_nat (Suc 0) = ''1''"
    by (simp add: str_nat.simps)
  note t1 = absent_priority_defaults [OF h, where cfg = sample_config and st = empty_state
      and body = "''Buy milk''" and i = 1 and task_id = 1 and found = False
      and d = "\<lparr>reachable = True, storage = Some [milk\<lparr>row_priority := ''Medium''\<rparr>]\<rparr>"]
  note t2 = absent_priority_defaults [OF h, where cfg = sample_config and st = one_task_state
      and body = "''Buy milk''" and i = 1 and task_id = 1 and found = True
      and d = "\<lparr>reachable = True, storage = Some [milk\<lparr>row_priority := ''Medium''\<rparr>]\<rparr>"]
  note s1' = t1 [THEN conjunct2, THEN conjunct2, THEN conjunct2, THEN conjunct2, THEN conjunct2,
      THEN conjunct2]
  note s2' = t2 [THEN conjunct2, THEN conjunct2, THEN conjunct2, THEN conjunct2, THEN conjunct2,
      THEN conjunct2]
  have c1: "add sample_config no_priority_request empty_state
        = (Inr (Redirect ''/'' (''Task added: Buy milk (ID: 1, Priority: Medium)'', ''success'')),
           \<lparr>db = \<lparr>reachable = True, storage = Some [milk\<lparr>row_priority := ''Medium''\<rparr>]\<rparr>,
              log_lines = []\<rparr>)"
    using s1' t a2 buy_milk_valid
    by (simp add: s1 reply_to_def url_for_index_def)
  have c2: "update sample_config 1 no_priority_request one_task_state
        = (Inr (Redirect ''/'' (''Task updated: Buy milk (ID: 1, Priority: Medium)'', ''success'')),
           \<lparr>db = \<lparr>reachable = True, storage = Some [milk\<lparr>row_priority := ''Medium''\<rparr>]\<rparr>,
              log_lines = [(WARNING, ''Invalid priority provided, defaulting to Medium'')]\<rparr>)"
    using s2' t u2 buy_milk_valid
    by (simp add: s1 reply_to_def url_for_index_def logger_warning_def)
  from h t buy_milk_valid c1 c2 show ?thesis by (intro conjI)
qed

end
